theory Spec2Isabelle
  imports Complex_Main "HOL-Library.Word"
begin

unbundle bit_operations_syntax

section \<open>Colour codec (lamp.py)\<close>

text \<open>
  A colour is the Python tuple \<^verbatim>\<open>Tuple[int, int, int]\<close>; Python integers are unbounded,
  so a channel is an \<^typ>\<open>int\<close>. On \<^typ>\<open>int\<close>, \<^const>\<open>push_bit\<close>, \<^const>\<open>drop_bit\<close> and
  \<open>AND\<close> are the two's-complement operations that Python's \<^verbatim>\<open><<\<close>, \<^verbatim>\<open>>>\<close> and
  \<^verbatim>\<open>&\<close> compute.
\<close>

type_synonym color = "int \<times> int \<times> int"

text \<open>
  \<^verbatim>\<open>validate_color\<close>: the loop over the channels, leaving with \<^verbatim>\<open>False\<close> at the first
  channel out of bounds.
\<close>

fun validate_channels :: "int list \<Rightarrow> bool" where
  "validate_channels [] = True"
| "validate_channels (val # rest) =
     (if val < 0 \<or> val > 255 then False else validate_channels rest)"

fun validate_color :: "color \<Rightarrow> bool" where
  "validate_color (red, green, blue) = validate_channels [red, green, blue]"

fun rgb_encode :: "color \<Rightarrow> int" where
  "rgb_encode (red, green, blue) =
     (let encoded_rgb = red;
          encoded_rgb = push_bit 8 encoded_rgb + green;
          encoded_rgb = push_bit 8 encoded_rgb + blue
      in encoded_rgb)"

definition rgb_decode :: "int \<Rightarrow> color" where
  "rgb_decode encoded_rgb =
     (let red = drop_bit 16 encoded_rgb AND 0xff;
          green = drop_bit 8 encoded_rgb AND 0xff;
          blue = encoded_rgb AND 0xff
      in (red, green, blue))"

section \<open>Brightness values (lamp.py)\<close>

text \<open>
  A brightness is a Python \<^verbatim>\<open>float\<close>. The program only compares it with \<^verbatim>\<open>0.0\<close> and
  \<^verbatim>\<open>1.0\<close>, and a comparison of floats is exact: a finite float is compared by the
  number it stands for (\<^verbatim>\<open>-0.0\<close> stands for 0), the infinities lie beyond every finite
  value, and every ordering comparison with \<^verbatim>\<open>nan\<close> is false.
\<close>

datatype pyfloat = Finite real | PosInf | NegInf | NaN

fun float_lt :: "pyfloat \<Rightarrow> pyfloat \<Rightarrow> bool" where
  "float_lt NaN y = False"
| "float_lt x NaN = False"
| "float_lt PosInf y = False"
| "float_lt x NegInf = False"
| "float_lt NegInf y = True"
| "float_lt (Finite a) PosInf = True"
| "float_lt (Finite a) (Finite b) = (a < b)"

definition float_gt :: "pyfloat \<Rightarrow> pyfloat \<Rightarrow> bool" where
  "float_gt x y = float_lt y x"

text \<open>Membership in the closed interval \<open>[0.0, 1.0]\<close>; no infinity and no \<^verbatim>\<open>nan\<close> is in it.\<close>

fun in_unit_interval :: "pyfloat \<Rightarrow> bool" where
  "in_unit_interval (Finite a) = (0 \<le> a \<and> a \<le> 1)"
| "in_unit_interval PosInf = False"
| "in_unit_interval NegInf = False"
| "in_unit_interval NaN = False"

definition validate_brightness :: "pyfloat \<Rightarrow> bool" where
  "validate_brightness brightness =
     (if float_lt brightness (Finite 0.0) \<or> float_gt brightness (Finite 1.0) then False
      else True)"

section \<open>Exceptions and observable effects\<close>

text \<open>
  \<^verbatim>\<open>Exception msg\<close> is what the lamp raises itself; the other constructors are the
  exceptions of the built-ins the program calls (indexing, \<^verbatim>\<open>int()\<close>, \<^verbatim>\<open>time.sleep\<close>,
  \<^verbatim>\<open>random.choice\<close>) and a failure of the HTTP library.
\<close>

datatype exn = Exception string | IndexError | KeyError | ValueError | RequestException

text \<open>The body of a request: the dictionary \<^verbatim>\<open>construct_call\<close> builds, in insertion order.\<close>

datatype pyval = PStr string | PInt int

type_synonym call_data = "(string \<times> pyval) list"

text \<open>
  What a call lets the world see, in order: one constructor per \<^verbatim>\<open>print\<close> statement
  (carrying the values the line formats), the sleep of \<^verbatim>\<open>pulsate\<close>, and the HTTP
  requests of the client.
\<close>

datatype event =
    Print_Created color pyfloat
  | Print_LampOn
  | Print_LampOff
  | Print_ColorSet color
  | Print_CurrentColor color
  | Print_BrightnessNow pyfloat
  | Print_CurrentBrightness pyfloat
  | Print_NowFlashing int
  | Print_Flash int
  | Print_DoneFlashing
  | Print_StartingPulsations int int
  | Print_PulsationStart int
  | Sleep int
  | Print_PulsationFinish int
  | Print_FinishedPulsations
  | Print_NewColor color string
  | Http_Get string call_data
  | Http_Post string call_data

section \<open>The Console lamp (lamp.py)\<close>

record console =
  rgb :: color
  brightness :: pyfloat
  state :: bool

text \<open>
  A method mutates the lamp in place and may raise. Its run is the lamp after the call
  (also when it raised), what it printed, and the exception it raised, if any.
\<close>

record run =
  lamp :: console
  out :: "event list"
  raised :: "exn option"

text \<open>\<^verbatim>\<open>range(n)\<close>: empty for \<open>n \<le> 0\<close>.\<close>

definition py_range :: "int \<Rightarrow> int list" where
  "py_range n = map int [0..<nat n]"

definition state_line :: "bool \<Rightarrow> event" where
  "state_line st = (if st then Print_LampOn else Print_LampOff)"

text \<open>
  \<^verbatim>\<open>Console.__init__\<close>: a constructor that raises leaves no object, so the result is
  the exception or the new lamp with the lines printed.
\<close>

definition Console_init :: "color \<Rightarrow> pyfloat \<Rightarrow> bool \<Rightarrow> exn + console \<times> event list" where
  "Console_init rgb0 brightness0 state0 =
     (if \<not> validate_color rgb0 then Inl (Exception ''Each color must be in range 0:255'')
      else if \<not> validate_brightness brightness0
        then Inl (Exception ''Brightness must but in range 0.0:1.0'')
      else Inr (\<lparr>rgb = rgb0, brightness = brightness0, state = state0\<rparr>,
                [Print_Created rgb0 brightness0, state_line state0]))"

text \<open>The defaults of the constructor: \<^verbatim>\<open>Console()\<close>.\<close>

definition Console_default :: "exn + console \<times> event list" where
  "Console_default = Console_init (0, 0, 0) (Finite 1.0) True"

definition set_color :: "color \<Rightarrow> console \<Rightarrow> run" where
  "set_color rgb' self =
     (if \<not> validate_color rgb'
      then \<lparr>lamp = self, out = [],
            raised = Some (Exception ''Each color must be in range 0:255'')\<rparr>
      else \<lparr>lamp = self\<lparr>rgb := rgb'\<rparr>, out = [Print_ColorSet rgb'], raised = None\<rparr>)"

definition get_color :: "console \<Rightarrow> color \<times> event list" where
  "get_color self = (rgb self, [Print_CurrentColor (rgb self)])"

definition set_brightness :: "pyfloat \<Rightarrow> console \<Rightarrow> run" where
  "set_brightness brightness' self =
     (if \<not> validate_brightness brightness'
      then \<lparr>lamp = self, out = [],
            raised = Some (Exception ''Brightness must but in range 0.0:1.0'')\<rparr>
      else \<lparr>lamp = self\<lparr>brightness := brightness'\<rparr>,
            out = [Print_BrightnessNow brightness'], raised = None\<rparr>)"

definition get_brightness :: "console \<Rightarrow> pyfloat \<times> event list" where
  "get_brightness self = (brightness self, [Print_CurrentBrightness (brightness self)])"

definition set_state :: "bool \<Rightarrow> console \<Rightarrow> run" where
  "set_state state' self =
     \<lparr>lamp = self\<lparr>state := state'\<rparr>, out = [state_line state'], raised = None\<rparr>"

definition get_state :: "console \<Rightarrow> bool \<times> event list" where
  "get_state self = (state self, [state_line (state self)])"

text \<open>
  \<^verbatim>\<open>flash\<close> tests \<^verbatim>\<open>not self.get_state\<close>: the bound method itself, which it does not
  call. A method object is true in a condition whatever the lamp's state, and reading the
  attribute prints nothing.
\<close>

definition bound_method_truth :: "console \<Rightarrow> bool" where
  "bound_method_truth self = True"

fun flash_loop :: "int list \<Rightarrow> console \<times> event list \<Rightarrow> console \<times> event list" where
  "flash_loop [] acc = acc"
| "flash_loop (i # rest) (self, printed) =
     (let off = set_state False self;
          on = set_state True (lamp off)
      in flash_loop rest (lamp on, printed @ [Print_Flash i] @ out off @ out on))"

definition flash :: "int \<Rightarrow> console \<Rightarrow> run" where
  "flash n_flashes self =
     (let printed = [Print_NowFlashing n_flashes];
          (self1, printed1) =
            (if \<not> bound_method_truth self
             then (let r = set_state True self in (lamp r, printed @ out r))
             else (self, printed));
          (self2, printed2) = flash_loop (py_range n_flashes) (self1, printed1)
      in \<lparr>lamp = self2, out = printed2 @ [Print_DoneFlashing], raised = None\<rparr>)"

text \<open>
  \<^verbatim>\<open>time.sleep\<close> raises \<^verbatim>\<open>ValueError\<close> for a negative length and otherwise returns
  after the wait, which the model records as an event. (A length too large for the
  platform's clock makes it raise as well; that bound is the platform's and is left out.
  \<^verbatim>\<open>pulsate\<close> assigns to no field of the lamp, whatever the sleep does.)
\<close>

fun pulsate_loop :: "int list \<Rightarrow> int \<Rightarrow> event list \<Rightarrow> event list \<times> exn option" where
  "pulsate_loop [] n_seconds printed = (printed, None)"
| "pulsate_loop (i # rest) n_seconds printed =
     (if n_seconds < 0 then (printed @ [Print_PulsationStart i], Some ValueError)
      else pulsate_loop rest n_seconds
             (printed @ [Print_PulsationStart i, Sleep n_seconds, Print_PulsationFinish i]))"

definition pulsate :: "int \<Rightarrow> int \<Rightarrow> console \<Rightarrow> run" where
  "pulsate n_pulsations n_seconds self =
     (case pulsate_loop (py_range n_pulsations) n_seconds
             [Print_StartingPulsations n_pulsations n_seconds] of
        (printed, Some e) \<Rightarrow> \<lparr>lamp = self, out = printed, raised = Some e\<rparr>
      | (printed, None) \<Rightarrow>
          \<lparr>lamp = self, out = printed @ [Print_FinishedPulsations], raised = None\<rparr>)"

text \<open>
  The public operations as data, and a lamp's history: any sequence of calls after the
  constructor. A call that raises leaves the object as it is at that moment, and the
  caller may go on using it.
\<close>

datatype lamp_call =
    Set_color color
  | Get_color
  | Set_brightness pyfloat
  | Get_brightness
  | Set_state bool
  | Get_state
  | Flash int
  | Pulsate int int

fun lamp_after :: "lamp_call \<Rightarrow> console \<Rightarrow> console" where
  "lamp_after (Set_color c) self = lamp (set_color c self)"
| "lamp_after Get_color self = self"
| "lamp_after (Set_brightness b) self = lamp (set_brightness b self)"
| "lamp_after Get_brightness self = self"
| "lamp_after (Set_state st) self = lamp (set_state st self)"
| "lamp_after Get_state self = self"
| "lamp_after (Flash n) self = lamp (flash n self)"
| "lamp_after (Pulsate n secs) self = lamp (pulsate n secs self)"

fun lamp_history :: "lamp_call list \<Rightarrow> console \<Rightarrow> console" where
  "lamp_history [] self = self"
| "lamp_history (c # cs) self = lamp_history cs (lamp_after c self)"

text \<open>What the two validators accept, taken together over a lamp's stored fields.\<close>

definition snapshot_ok :: "console \<Rightarrow> bool" where
  "snapshot_ok self \<longleftrightarrow> validate_color (rgb self) \<and> validate_brightness (brightness self)"

section \<open>Colour suggestion (lamp.py)\<close>

definition colors :: "color list" where
  "colors =
     [(255, 100, 0),
      (50, 255, 255),
      (255, 255, 255),
      (0, 0, 255),
      (0, 255, 255),
      (255, 222, 30),
      (0, 255, 0),
      (0, 255, 40),
      (255, 0, 20),
      (253, 245, 230),
      (255, 40, 0),
      (242, 90, 255),
      (180, 0, 255)]"

text \<open>
  \<^verbatim>\<open>random.choice(seq)\<close> raises \<^verbatim>\<open>IndexError\<close> on an empty sequence and otherwise
  returns the element at a random index below the length. The draw is the argument
  \<open>r\<close>: the index is \<open>r mod length seq\<close>, so every index arises from some draw.
\<close>

definition choice :: "nat \<Rightarrow> 'a list \<Rightarrow> exn + 'a" where
  "choice r seq = (if seq = [] then Inl IndexError else Inr (seq ! (r mod length seq)))"

definition suggest_rgb :: "nat \<Rightarrow> color \<Rightarrow> exn + color" where
  "suggest_rgb r current = choice r [color \<leftarrow> colors. color \<noteq> current]"

text \<open>The entries \<^verbatim>\<open>suggest_rgb\<close> draws from: the palette without the current colour.\<close>

definition candidates :: "color \<Rightarrow> color list" where
  "candidates current = [color \<leftarrow> colors. color \<noteq> current]"

section \<open>The switch (switch.py)\<close>

text \<open>The \<^verbatim>\<open>gpiozero.Button\<close> bound to a pin; the switch only stores it.\<close>

datatype button = Button int

record cherry_switch =
  pin :: int
  p_state :: bool
  p_previous_state :: bool
  p_can_change :: bool
  p_button :: button

definition CherrySwitch_init :: "int \<Rightarrow> cherry_switch" where
  "CherrySwitch_init pin0 =
     \<lparr>pin = pin0, p_state = False, p_previous_state = True, p_can_change = True,
      p_button = Button pin0\<rparr>"

text \<open>A method returns its value together with the switch after the call.\<close>

definition change_permitted :: "cherry_switch \<Rightarrow> bool \<times> cherry_switch" where
  "change_permitted self = (True, self)"

definition change_state :: "cherry_switch \<Rightarrow> unit \<times> cherry_switch" where
  "change_state self =
     (let (permitted, self1) = change_permitted self
      in if permitted
         then ((), self1\<lparr>p_previous_state := p_state self1, p_state := \<not> p_state self1\<rparr>)
         else ((), self1))"

definition state_changed :: "cherry_switch \<Rightarrow> bool \<times> cherry_switch" where
  "state_changed self = (p_state self = p_previous_state self, self)"

datatype switch_call = Change_state | State_changed | Change_permitted

fun switch_after :: "switch_call \<Rightarrow> cherry_switch \<Rightarrow> cherry_switch" where
  "switch_after Change_state self = snd (change_state self)"
| "switch_after State_changed self = snd (state_changed self)"
| "switch_after Change_permitted self = snd (change_permitted self)"

fun switch_history :: "switch_call list \<Rightarrow> cherry_switch \<Rightarrow> cherry_switch" where
  "switch_history [] self = self"
| "switch_history (c # cs) self = switch_history cs (switch_after c self)"

section \<open>The client (client.py)\<close>

text \<open>
  \<^verbatim>\<open>secrets.py\<close> is not part of the repository: the two entries the client reads are
  the fields of a record it takes as a parameter, and \<^verbatim>\<open>aio_api()\<close> and \<^verbatim>\<open>aio_key()\<close>
  are the field selectors.
\<close>

record secrets =
  aio_api :: string
  aio_key :: string

text \<open>
  The remote store is outside the program. A request is answered by the store: the
  parsed JSON of the answer (for a GET a list of records, each a dictionary of strings;
  for a POST the text the client prints), or the exception the HTTP library or its JSON
  parser raises.
\<close>

record remote =
  http_get :: "string \<Rightarrow> call_data \<Rightarrow> exn + (string \<rightharpoonup> string) list"
  http_post :: "string \<Rightarrow> call_data \<Rightarrow> exn + string"

definition construct_call :: "secrets \<Rightarrow> pyval option \<Rightarrow> call_data" where
  "construct_call sec val =
     (let data = [(''X-AIO-Key'', PStr (aio_key sec))]
      in case val of None \<Rightarrow> data | Some v \<Rightarrow> data @ [(''value'', v)])"

text \<open>
  \<^verbatim>\<open>check_color\<close>: the GET is recorded when it is sent; \<^verbatim>\<open>api_response[0]\<close> raises
  \<^verbatim>\<open>IndexError\<close> on an empty list and \<^verbatim>\<open>['value']\<close> raises \<^verbatim>\<open>KeyError\<close> when the
  record has no such entry. The built-in \<^verbatim>\<open>int\<close> belongs to the interpreter, not to the
  repository: what it makes of a string (the integer, or the exception it raises) is the
  argument \<open>py_int\<close>, so nothing is assumed about which strings it accepts.
\<close>

definition check_color ::
  "(string \<Rightarrow> exn + int) \<Rightarrow> secrets \<Rightarrow> remote \<Rightarrow> console \<Rightarrow> run" where
  "check_color py_int sec rem my_lamp =
     (let sent = [Http_Get (aio_api sec) (construct_call sec None)]
      in case http_get rem (aio_api sec) (construct_call sec None) of
           Inl e \<Rightarrow> \<lparr>lamp = my_lamp, out = sent, raised = Some e\<rparr>
         | Inr api_response \<Rightarrow>
            (case api_response of
               [] \<Rightarrow> \<lparr>lamp = my_lamp, out = sent, raised = Some IndexError\<rparr>
             | record0 # others \<Rightarrow>
                (case record0 ''value'' of
                   None \<Rightarrow> \<lparr>lamp = my_lamp, out = sent, raised = Some KeyError\<rparr>
                 | Some text0 \<Rightarrow>
                    (case py_int text0 of
                       Inl e \<Rightarrow> \<lparr>lamp = my_lamp, out = sent, raised = Some e\<rparr>
                     | Inr encoded \<Rightarrow>
                        (let current_color = rgb_decode encoded;
                             (lamp_color, printed) = get_color my_lamp
                         in if current_color \<noteq> lamp_color
                            then (let r = set_color current_color my_lamp
                                  in \<lparr>lamp = lamp r, out = sent @ printed @ out r,
                                      raised = raised r\<rparr>)
                            else \<lparr>lamp = my_lamp, out = sent @ printed, raised = None\<rparr>)))))"

text \<open>
  \<^verbatim>\<open>trigger_color_change\<close>, with the draw of \<^verbatim>\<open>random.choice\<close> as the argument \<open>r\<close>.
  The POST is recorded when it is sent; the last line is printed only when the answer
  arrived and parsed.
\<close>

definition trigger_color_change :: "secrets \<Rightarrow> remote \<Rightarrow> nat \<Rightarrow> console \<Rightarrow> run" where
  "trigger_color_change sec rem r my_lamp =
     (let (lamp_color, printed) = get_color my_lamp
      in case suggest_rgb r lamp_color of
           Inl e \<Rightarrow> \<lparr>lamp = my_lamp, out = printed, raised = Some e\<rparr>
         | Inr new_color \<Rightarrow>
            (let applied = set_color new_color my_lamp
             in case raised applied of
                  Some e \<Rightarrow>
                    \<lparr>lamp = lamp applied, out = printed @ out applied, raised = Some e\<rparr>
                | None \<Rightarrow>
                    (let post_data = construct_call sec (Some (PInt (rgb_encode new_color)));
                         sent = printed @ out applied @ [Http_Post (aio_api sec) post_data]
                     in case http_post rem (aio_api sec) post_data of
                          Inl e \<Rightarrow> \<lparr>lamp = lamp applied, out = sent, raised = Some e\<rparr>
                        | Inr answer \<Rightarrow>
                            \<lparr>lamp = lamp applied,
                             out = sent @ [Print_NewColor new_color answer],
                             raised = None\<rparr>)))"

text \<open>The requests and the colour changes among the events of a run.\<close>

fun posted :: "event list \<Rightarrow> (string \<times> call_data) list" where
  "posted [] = []"
| "posted (Http_Post url data # es) = (url, data) # posted es"
| "posted (e # es) = posted es"

fun colors_set :: "event list \<Rightarrow> color list" where
  "colors_set [] = []"
| "colors_set (Print_ColorSet c # es) = c # colors_set es"
| "colors_set (e # es) = colors_set es"

section \<open>Codec: auxiliary facts\<close>

lemma and_0xff_int: "(x::int) AND 0xff = x mod 256"
proof -
  have "(x::int) AND mask 8 = take_bit 8 x"
    by (simp add: take_bit_eq_mask)
  then show ?thesis
    by (simp add: take_bit_eq_mod mask_eq_exp_minus_1)
qed

lemma validate_color_iff:
  "validate_color (r, g, b) \<longleftrightarrow> 0 \<le> r \<and> r \<le> 255 \<and> 0 \<le> g \<and> g \<le> 255 \<and> 0 \<le> b \<and> b \<le> 255"
  by auto

lemma rgb_encode_arith: "rgb_encode (r, g, b) = (r * 256 + g) * 256 + b"
  by (simp add: push_bit_eq_mult)

lemma rgb_decode_arith:
  "rgb_decode v = ((v div 65536) mod 256, (v div 256) mod 256, v mod 256)"
  by (simp add: rgb_decode_def and_0xff_int drop_bit_eq_div)

lemma mod_256_bounds: "0 \<le> (x::int) mod 256 \<and> x mod 256 \<le> 255"
  using pos_mod_bound [of 256 x] pos_mod_sign [of 256 x] by linarith

lemma shift_in_low_byte:
  fixes a b :: int
  assumes "0 \<le> b" "b \<le> 255"
  shows "(a * 256 + b) div 256 = a" and "(a * 256 + b) mod 256 = b"
  using assms by simp_all

lemma decode_encode_valid:
  assumes "validate_color c"
  shows "rgb_decode (rgb_encode c) = c"
proof -
  obtain r g b where c: "c = (r, g, b)" by (cases c)
  from assms c have bounds: "0 \<le> r" "r \<le> 255" "0 \<le> g" "g \<le> 255" "0 \<le> b" "b \<le> 255"
    by (auto split: if_splits)
  let ?v = "(r * 256 + g) * 256 + b"
  have b: "?v mod 256 = b" using bounds by (simp only: shift_in_low_byte)
  have d1: "?v div 256 = r * 256 + g" using bounds by (simp only: shift_in_low_byte)
  have g: "?v div 256 mod 256 = g" unfolding d1 using bounds by (simp only: shift_in_low_byte)
  have "?v div 65536 = ?v div 256 div 256" by (simp add: div_mult2_eq)
  also have "\<dots> = r" unfolding d1 using bounds by (simp only: shift_in_low_byte)
  finally have r: "?v div 65536 mod 256 = r" using bounds by simp
  show ?thesis
    by (simp only: c rgb_encode_arith rgb_decode_arith b g r)
qed

lemma encode_range:
  assumes "validate_color c"
  shows "0 \<le> rgb_encode c \<and> rgb_encode c < 2 ^ 24"
proof -
  obtain r g b where c: "c = (r, g, b)" by (cases c)
  from assms c have bounds: "0 \<le> r" "r \<le> 255" "0 \<le> g" "g \<le> 255" "0 \<le> b" "b \<le> 255"
    by (auto split: if_splits)
  then show ?thesis unfolding c rgb_encode_arith by simp
qed

lemma decode_valid: "validate_color (rgb_decode v)"
  by (simp add: rgb_decode_arith validate_color_iff mod_256_bounds del: validate_color.simps)

lemma encode_decode:
  assumes "0 \<le> v" "v < 2 ^ 24"
  shows "rgb_encode (rgb_decode v) = v"
proof -
  have hi: "v div 65536 mod 256 = v div 65536"
    using assms by simp
  have "v div 65536 = v div 256 div 256" by (simp add: div_mult2_eq)
  then have "(v div 65536 mod 256 * 256 + v div 256 mod 256) * 256 + v mod 256
      = (v div 256 div 256 * 256 + v div 256 mod 256) * 256 + v mod 256"
    using hi by simp
  also have "\<dots> = v div 256 * 256 + v mod 256" by simp
  also have "\<dots> = v" by simp
  finally show ?thesis by (simp only: rgb_decode_arith rgb_encode_arith)
qed

lemma decode_mod: "rgb_decode (v mod 2 ^ 24) = rgb_decode v"
proof -
  have m: "(v mod 2 ^ 24) mod 256 = v mod 256"
    by (rule mod_mod_cancel) simp
  have d8: "(v mod 2 ^ 24) div 256 = (v div 256) mod 2 ^ 16"
    using div_exp_mod_exp_eq [of v 8 16] by simp
  have d16: "(v mod 2 ^ 24) div 65536 = (v div 65536) mod 2 ^ 8"
    using div_exp_mod_exp_eq [of v 16 8] by simp
  have g: "(v mod 2 ^ 24) div 256 mod 256 = v div 256 mod 256"
    unfolding d8 by (rule mod_mod_cancel) simp
  have r: "(v mod 2 ^ 24) div 65536 mod 256 = v div 65536 mod 256"
    unfolding d16 by simp
  show ?thesis by (simp only: rgb_decode_arith m g r)
qed

lemma rgb_encode_bij: "bij_betw rgb_encode {c. validate_color c} {0..<2 ^ 24}"
proof (rule bij_betw_byWitness [where f' = rgb_decode])
  show "\<forall>c\<in>{c. validate_color c}. rgb_decode (rgb_encode c) = c"
    using decode_encode_valid by blast
  show "\<forall>v\<in>{0..<2 ^ 24}. rgb_encode (rgb_decode v) = v"
    using encode_decode by simp
  show "rgb_encode ` {c. validate_color c} \<subseteq> {0..<2 ^ 24}"
    using encode_range by auto
  show "rgb_decode ` {0..<2 ^ 24} \<subseteq> {c. validate_color c}"
    using decode_valid by blast
qed

section \<open>Codec: claims\<close>

text \<open>
  Claim C1. For every colour \<open>c\<close> whose three channels are each integers in \<open>[0, 255]\<close>
  (the colours \<^const>\<open>validate_color\<close> accepts), decoding the encoding of \<open>c\<close> gives \<open>c\<close>
  back; and \<^const>\<open>rgb_encode\<close> is a bijection between the valid colours and the 24-bit
  integers \<open>0 \<le> v < 2^24\<close>.
\<close>

theorem rgb_roundtrip:
  assumes "validate_color c"
  shows "rgb_decode (rgb_encode c) = c
    \<and> bij_betw rgb_encode {c. validate_color c} {0..<2 ^ 24}"
  using assms decode_encode_valid rgb_encode_bij by simp

theorem rgb_roundtrip_witness:
  "validate_color (1, 2, 3) \<and> rgb_encode (1, 2, 3) = 66051 \<and> rgb_decode 66051 = (1, 2, 3)"
proof -
  have valid: "validate_color (1, 2, 3)" by simp
  have enc: "rgb_encode (1, 2, 3) = 66051" by (simp add: rgb_encode_arith)
  from rgb_roundtrip [OF valid] have "rgb_decode (rgb_encode (1, 2, 3)) = (1, 2, 3)"
    by (rule conjunct1)
  with valid enc show ?thesis by simp
qed

text \<open>
  Claim C9. For every nonnegative integer \<open>v\<close>, \<^const>\<open>rgb_decode\<close> returns a colour (it
  is a total function with no failing branch), the result is the one for \<open>v mod 2^24\<close>
  (bits above bit 23 are ignored), and each channel lies in \<open>[0, 255]\<close>.
\<close>

theorem rgb_decode_masks:
  assumes "0 \<le> v"
  shows "rgb_decode v = rgb_decode (v mod 2 ^ 24)
    \<and> (\<exists>red green blue. rgb_decode v = (red, green, blue)
          \<and> 0 \<le> red \<and> red \<le> 255 \<and> 0 \<le> green \<and> green \<le> 255 \<and> 0 \<le> blue \<and> blue \<le> 255)"
proof -
  obtain red green blue where d: "rgb_decode v = (red, green, blue)"
    by (cases "rgb_decode v")
  have "validate_color (rgb_decode v)" by (rule decode_valid)
  with d have "0 \<le> red \<and> red \<le> 255 \<and> 0 \<le> green \<and> green \<le> 255 \<and> 0 \<le> blue \<and> blue \<le> 255"
    by (simp only: validate_color_iff)
  moreover have "rgb_decode v = rgb_decode (v mod 2 ^ 24)"
    by (rule decode_mod [symmetric])
  ultimately show ?thesis using d by blast
qed

theorem rgb_decode_masks_witness:
  "(0::int) \<le> 16777471 \<and> rgb_decode 16777471 = rgb_decode 255
     \<and> rgb_decode 16777471 = (0, 0, 255)"
proof -
  have nonneg: "(0::int) \<le> 16777471" by simp
  from rgb_decode_masks [OF nonneg] have "rgb_decode 16777471 = rgb_decode (16777471 mod 2 ^ 24)"
    by (rule conjunct1)
  moreover have "rgb_decode 255 = (0, 0, 255)" by (simp add: rgb_decode_arith)
  ultimately show ?thesis by simp
qed

section \<open>The switch: auxiliary facts\<close>

lemma change_state_swaps:
  "snd (change_state self) =
     self\<lparr>p_previous_state := p_state self, p_state := \<not> p_state self\<rparr>"
  by (simp add: change_state_def change_permitted_def)

lemma switch_after_keeps_mismatch:
  assumes "p_previous_state self = (\<not> p_state self)"
  shows "p_previous_state (switch_after c self) = (\<not> p_state (switch_after c self))"
  using assms
  by (cases c) (simp_all add: change_state_swaps state_changed_def change_permitted_def)

lemma switch_history_keeps_mismatch:
  assumes "p_previous_state self = (\<not> p_state self)"
  shows "p_previous_state (switch_history cs self) = (\<not> p_state (switch_history cs self))"
  using assms
proof (induction cs arbitrary: self)
  case Nil
  then show ?case by simp
next
  case (Cons c cs)
  from Cons.prems have "p_previous_state (switch_after c self) = (\<not> p_state (switch_after c self))"
    by (rule switch_after_keeps_mismatch)
  then show ?case by (simp add: Cons.IH)
qed

section \<open>The switch: claims\<close>

text \<open>
  Claim C4. Right after construction, and before any \<^verbatim>\<open>change_state()\<close>, the claim
  expects \<^verbatim>\<open>state_changed()\<close> to answer true. The code compares the two stored states
  for equality, and the constructor seeds them as opposites: the first call answers
  false, for every pin.
\<close>

theorem state_changed_fresh: "fst (state_changed (CherrySwitch_init pin0)) = False"
  by (simp add: state_changed_def CherrySwitch_init_def)

text \<open>
  Claim C10. After construction and any sequence of \<^verbatim>\<open>change_state\<close>,
  \<^verbatim>\<open>state_changed\<close> and \<^verbatim>\<open>change_permitted\<close> calls, the stored previous state is the
  negation of the current state, so \<^verbatim>\<open>state_changed()\<close> answers false; on any switch it
  answers true exactly when current and previous are equal, and it leaves the switch as
  it was.
\<close>

theorem switch_previous_is_negation:
  "p_previous_state (switch_history cs (CherrySwitch_init pin0))
     = (\<not> p_state (switch_history cs (CherrySwitch_init pin0)))
   \<and> fst (state_changed (switch_history cs (CherrySwitch_init pin0))) = False
   \<and> fst (state_changed self) = (p_state self = p_previous_state self)
   \<and> snd (state_changed self) = self"
proof -
  let ?s = "switch_history cs (CherrySwitch_init pin0)"
  have "p_previous_state (CherrySwitch_init pin0) = (\<not> p_state (CherrySwitch_init pin0))"
    by (simp add: CherrySwitch_init_def)
  then have inv: "p_previous_state ?s = (\<not> p_state ?s)"
    by (rule switch_history_keeps_mismatch)
  then have "fst (state_changed ?s) = False"
    by (auto simp add: state_changed_def)
  with inv show ?thesis by (simp add: state_changed_def)
qed

section \<open>Flashing: auxiliary facts\<close>

lemma flash_loop_frame:
  "rgb (fst (flash_loop idxs acc)) = rgb (fst acc)
   \<and> brightness (fst (flash_loop idxs acc)) = brightness (fst acc)"
proof (induction idxs acc rule: flash_loop.induct)
  case (1 acc)
  show ?case by simp
next
  case (2 i rest self printed)
  then show ?case by (simp add: set_state_def Let_def)
qed

lemma flash_loop_on:
  "idxs \<noteq> [] \<Longrightarrow> state (fst (flash_loop idxs acc))"
proof (induction idxs acc rule: flash_loop.induct)
  case (1 acc)
  then show ?case by simp
next
  case (2 i rest self printed)
  show ?case
  proof (cases rest)
    case Nil
    then show ?thesis by (simp add: set_state_def Let_def)
  next
    case (Cons j more)
    with 2 show ?thesis by (simp add: Let_def)
  qed
qed

lemma py_range_empty: "n \<le> 0 \<Longrightarrow> py_range n = []"
  by (simp add: py_range_def)

lemma py_range_nonempty: "1 \<le> n \<Longrightarrow> py_range n \<noteq> []"
  by (simp add: py_range_def)

lemma lamp_flash: "lamp (flash n self) = fst (flash_loop (py_range n) (self, [Print_NowFlashing n]))"
  by (simp add: flash_def bound_method_truth_def Let_def split: prod.splits)

lemma raised_flash: "raised (flash n self) = None"
  by (simp add: flash_def bound_method_truth_def Let_def split: prod.splits)

text \<open>
  What \<^verbatim>\<open>flash\<close> does, for every lamp: it returns without raising and leaves colour and
  brightness alone; with \<open>n \<ge> 1\<close> the lamp ends powered on; with \<open>n \<le> 0\<close> the lamp is
  exactly as it was.
\<close>

lemma flash_summary:
  "(1 \<le> n \<longrightarrow> state (lamp (flash n self)))
   \<and> (n \<le> 0 \<longrightarrow> lamp (flash n self) = self)
   \<and> raised (flash n self) = None
   \<and> rgb (lamp (flash n self)) = rgb self
   \<and> brightness (lamp (flash n self)) = brightness self"
proof -
  have "state (lamp (flash n self))" if "1 \<le> n"
    using that by (simp add: lamp_flash flash_loop_on py_range_nonempty)
  moreover have "lamp (flash n self) = self" if "n \<le> 0"
    using that by (simp add: lamp_flash py_range_empty)
  moreover have "rgb (lamp (flash n self)) = rgb self"
    "brightness (lamp (flash n self)) = brightness self"
    using flash_loop_frame [of "py_range n" "(self, [Print_NowFlashing n])"]
    by (simp_all add: lamp_flash)
  ultimately show ?thesis by (simp add: raised_flash)
qed

section \<open>Flashing: claims\<close>

text \<open>
  Claim C2. The claim expects \<^verbatim>\<open>flash(n)\<close>, for \<open>n\<close> in \<open>{0, 1, 5}\<close>, to end with the
  lamp powered on from every starting power state. The guard before the loop,
  \<^verbatim>\<open>if not self.get_state\<close>, tests the method object instead of calling it, so it never
  turns the lamp on; with \<open>n = 0\<close> the loop does not run either, and a lamp that is off
  is still off when \<^verbatim>\<open>flash(0)\<close> returns.
\<close>

theorem flash_zero_off_stays_off:
  "\<not> state (lamp (flash 0 \<lparr>rgb = (0, 0, 0), brightness = Finite 1, state = False\<rparr>))"
  by (simp add: lamp_flash py_range_def)

section \<open>Validation and the lamp's stored snapshot: auxiliary facts\<close>

lemma validate_brightness_iff:
  "validate_brightness b \<longleftrightarrow> \<not> float_lt b (Finite 0) \<and> \<not> float_gt b (Finite 1)"
  by (simp add: validate_brightness_def)

lemma validate_brightness_cases:
  "validate_brightness b \<longleftrightarrow> in_unit_interval b \<or> b = NaN"
  by (cases b) (auto simp add: validate_brightness_def float_gt_def)

lemma set_color_raises_iff:
  "raised (set_color c self) \<noteq> None \<longleftrightarrow> \<not> validate_color c"
  by (simp add: set_color_def)

lemma set_color_raise_keeps_lamp:
  "raised (set_color c self) \<noteq> None \<Longrightarrow> lamp (set_color c self) = self"
  by (simp add: set_color_def split: if_splits)

lemma set_brightness_raises_iff:
  "raised (set_brightness b self) \<noteq> None \<longleftrightarrow> \<not> validate_brightness b"
  by (simp add: set_brightness_def)

lemma set_brightness_raise_keeps_lamp:
  "raised (set_brightness b self) \<noteq> None \<Longrightarrow> lamp (set_brightness b self) = self"
  by (simp add: set_brightness_def split: if_splits)

lemma set_brightness_raises_on_numbers:
  "b \<noteq> NaN \<Longrightarrow> raised (set_brightness b self) \<noteq> None \<longleftrightarrow> \<not> in_unit_interval b"
  using set_brightness_raises_iff [of b self] by (simp add: validate_brightness_cases)

lemma pulsate_lamp: "lamp (pulsate n secs self) = self"
  by (simp add: pulsate_def split: prod.splits option.splits)

lemma lamp_after_ok: "snapshot_ok self \<Longrightarrow> snapshot_ok (lamp_after c self)"
proof (cases c)
  case (Flash n)
  assume "snapshot_ok self"
  then show ?thesis
    using flash_loop_frame [of "py_range n" "(self, [Print_NowFlashing n])"]
    by (simp add: Flash lamp_flash snapshot_ok_def)
qed (auto simp add: snapshot_ok_def set_color_def set_brightness_def set_state_def pulsate_lamp)

lemma lamp_history_ok: "snapshot_ok self \<Longrightarrow> snapshot_ok (lamp_history cs self)"
  by (induction cs arbitrary: self) (simp_all add: lamp_after_ok)

lemma console_init_ok: "Console_init c b st = Inr (self, printed) \<Longrightarrow> snapshot_ok self"
  by (auto simp add: Console_init_def snapshot_ok_def split: if_splits)

lemma reachable_lamp_in_range:
  assumes "Console_init c b st = Inr (self, printed)"
  shows "validate_color (rgb (lamp_history cs self))
    \<and> (in_unit_interval (brightness (lamp_history cs self))
        \<or> brightness (lamp_history cs self) = NaN)"
  using lamp_history_ok [OF console_init_ok [OF assms], of cs]
  by (simp add: snapshot_ok_def validate_brightness_cases)

section \<open>Validation and the lamp's stored snapshot: claims\<close>

text \<open>
  Claim C3. The claim expects \<^verbatim>\<open>set_brightness\<close> to raise exactly when its argument
  is outside \<open>[0.0, 1.0]\<close>. The validator rejects a value below \<open>0.0\<close> or above
  \<open>1.0\<close>, and both comparisons are false for \<^verbatim>\<open>nan\<close>: the call
  \<^verbatim>\<open>set_brightness(float('nan'))\<close> does not raise and stores \<^verbatim>\<open>nan\<close>, which is not in
  the interval. (For every other argument, and for \<^verbatim>\<open>set_color\<close>, the lemmas above show
  that the call raises exactly on an out-of-range argument and that a raising call leaves
  the lamp as it was.)
\<close>

theorem set_brightness_accepts_nan:
  "\<not> in_unit_interval NaN
   \<and> raised (set_brightness NaN self) = None
   \<and> lamp (set_brightness NaN self) = self\<lparr>brightness := NaN\<rparr>"
  by (simp add: set_brightness_def validate_brightness_def float_gt_def)

text \<open>
  Claim C5. The claim expects the stored brightness of every reachable lamp to be in
  \<open>[0.0, 1.0]\<close>. The constructor uses the same validator, so
  \<^verbatim>\<open>Console(brightness=float('nan'))\<close> builds a lamp whose brightness is \<^verbatim>\<open>nan\<close>. (The
  colour channels of every reachable lamp are in \<open>[0, 255]\<close>, and its brightness is in
  the interval or \<^verbatim>\<open>nan\<close>: lemma \<open>reachable_lamp_in_range\<close>.)
\<close>

theorem console_init_accepts_nan:
  "Console_init (0, 0, 0) NaN True
     = Inr (\<lparr>rgb = (0, 0, 0), brightness = NaN, state = True\<rparr>,
            [Print_Created (0, 0, 0) NaN, Print_LampOn])
   \<and> \<not> in_unit_interval (brightness \<lparr>rgb = (0, 0, 0), brightness = NaN, state = True\<rparr>)"
  by (simp add: Console_init_def validate_brightness_def float_gt_def state_line_def)

section \<open>Colour suggestion: auxiliary facts\<close>

lemma length_colors: "length colors = 13"
  by (simp add: colors_def)

lemma distinct_colors: "distinct colors"
  by (simp add: colors_def)

lemma colors_valid: "c \<in> set colors \<Longrightarrow> validate_color c"
  by (auto simp add: colors_def)

lemma set_candidates: "set (candidates current) = set colors - {current}"
  by (auto simp add: candidates_def)

lemma candidates_nonempty: "candidates current \<noteq> []"
proof -
  have "(255, 100, 0) \<in> set colors" "(50, 255, 255) \<in> set colors"
    by (simp_all add: colors_def)
  then have "(255, 100, 0) \<in> set (candidates current) \<or> (50, 255, 255) \<in> set (candidates current)"
    by (auto simp add: set_candidates)
  then show ?thesis by auto
qed

lemma choice_member:
  "seq \<noteq> [] \<Longrightarrow> \<exists>x. choice r seq = Inr x \<and> x \<in> set seq"
  by (simp add: choice_def)

lemma choice_range:
  assumes "seq \<noteq> []"
  shows "range (\<lambda>r. choice r seq) = (Inr ` set seq :: (exn + 'a) set)"
proof (intro equalityI subsetI)
  fix y :: "exn + 'a" assume "y \<in> range (\<lambda>r. choice r seq)"
  then obtain r where "y = choice r seq" by blast
  with assms show "y \<in> Inr ` set seq" by (simp add: choice_def)
next
  fix y :: "exn + 'a" assume "y \<in> Inr ` set seq"
  then obtain x where x: "x \<in> set seq" "y = Inr x" by blast
  then obtain i where i: "i < length seq" "seq ! i = x"
    by (auto simp add: in_set_conv_nth)
  with assms x have "choice i seq = y" by (simp add: choice_def)
  then show "y \<in> range (\<lambda>r. choice r seq)" by blast
qed

lemma suggest_rgb_candidates: "suggest_rgb r current = choice r (candidates current)"
  by (simp add: suggest_rgb_def candidates_def)

lemma suggest_rgb_picks:
  "\<exists>c. suggest_rgb r current = Inr c \<and> c \<in> set colors \<and> c \<noteq> current"
proof -
  from choice_member [OF candidates_nonempty, of r current]
  obtain c where "choice r (candidates current) = Inr c" "c \<in> set (candidates current)"
    by blast
  then show ?thesis by (auto simp add: suggest_rgb_candidates set_candidates)
qed

lemma suggest_rgb_range:
  "range (\<lambda>r. suggest_rgb r current) = Inr ` (set colors - {current})"
  using choice_range [OF candidates_nonempty, of current]
  by (simp add: suggest_rgb_candidates set_candidates)

section \<open>Colour suggestion: claims\<close>

text \<open>
  Claim C7. For every current colour and every outcome \<open>r\<close> of the random draw,
  \<^verbatim>\<open>suggest_rgb\<close> returns (it does not raise) a member of the palette of 13 entries,
  and the colour returned differs from the current one: the current colour is removed
  from the palette by comparing values.
\<close>

theorem suggest_rgb_in_palette:
  "(\<exists>c. suggest_rgb r current = Inr c \<and> c \<in> set colors \<and> c \<noteq> current)
   \<and> length colors = 13"
  using suggest_rgb_picks [of r current] length_colors by simp

section \<open>The client: auxiliary facts\<close>

lemma trigger_color_change_run:
  assumes "suggest_rgb r (rgb self) = Inr c" and "c \<in> set colors"
  shows "lamp (trigger_color_change sec rem r self) = self\<lparr>rgb := c\<rparr>"
    and "colors_set (out (trigger_color_change sec rem r self)) = [c]"
    and "posted (out (trigger_color_change sec rem r self))
          = [(aio_api sec, [(''X-AIO-Key'', PStr (aio_key sec)), (''value'', PInt (rgb_encode c))])]"
  using assms colors_valid [OF assms(2)]
  by (simp_all add: trigger_color_change_def get_color_def set_color_def construct_call_def Let_def
      split: sum.splits)

lemma card_palette_without_white: "card (set colors - {(255, 255, 255)}) = 12"
proof -
  have "(255, 255, 255) \<in> set colors" by (simp add: colors_def)
  then have "card (set colors - {(255, 255, 255)}) = card (set colors) - 1"
    by simp
  also have "card (set colors) = length colors"
    by (rule distinct_card) (rule distinct_colors)
  finally show ?thesis by (simp add: length_colors)
qed

lemma trigger_color_change_rgb:
  "Inr (rgb (lamp (trigger_color_change sec rem r self))) = suggest_rgb r (rgb self)"
proof -
  obtain c where c: "suggest_rgb r (rgb self) = Inr c" "c \<in> set colors"
    using suggest_rgb_picks [of r "rgb self"] by blast
  then show ?thesis by (simp add: trigger_color_change_run)
qed

lemma trigger_color_change_range:
  "range (\<lambda>r. rgb (lamp (trigger_color_change sec rem r self))) = set colors - {rgb self}"
proof -
  have "Inr ` range (\<lambda>r. rgb (lamp (trigger_color_change sec rem r self)))
      = range (\<lambda>r. suggest_rgb r (rgb self))"
    by (simp add: image_image trigger_color_change_rgb)
  also have "\<dots> = Inr ` (set colors - {rgb self})"
    by (rule suggest_rgb_range)
  finally show ?thesis
    by (simp add: inj_image_eq_iff)
qed

section \<open>The client: claims\<close>

text \<open>
  Claim C8, as amended. After one call to \<^verbatim>\<open>trigger_color_change\<close> on a lamp in any
  state, whatever the draw and whatever the store answers, the lamp's colour is a palette
  entry different from its prior colour, brightness and power state are untouched, the
  one colour set locally is that entry, and the one POST sent carries the key and
  \<^verbatim>\<open>rgb_encode\<close> of that same entry. Over all draws the colours selected are exactly the
  palette entries other than the prior colour. \<open>(255, 255, 255)\<close> is itself a palette
  entry (White), so a device that starts there may select any of the other 12 entries.
\<close>

theorem trigger_color_change_pushes:
  "(let res = trigger_color_change sec rem r self in
      rgb (lamp res) \<in> set colors \<and> rgb (lamp res) \<noteq> rgb self
      \<and> brightness (lamp res) = brightness self \<and> state (lamp res) = state self
      \<and> colors_set (out res) = [rgb (lamp res)]
      \<and> posted (out res)
          = [(aio_api sec,
              [(''X-AIO-Key'', PStr (aio_key sec)),
               (''value'', PInt (rgb_encode (rgb (lamp res))))])])
   \<and> range (\<lambda>r. rgb (lamp (trigger_color_change sec rem r self))) = set colors - {rgb self}
   \<and> (255, 255, 255) \<in> set colors
   \<and> card (set colors - {(255, 255, 255)}) = 12"
proof -
  obtain c where c: "suggest_rgb r (rgb self) = Inr c" "c \<in> set colors" "c \<noteq> rgb self"
    using suggest_rgb_picks [of r "rgb self"] by blast
  have white: "(255, 255, 255) \<in> set colors" by (simp add: colors_def)
  from c white show ?thesis
    by (simp add: Let_def trigger_color_change_run [OF c(1) c(2)] trigger_color_change_range
        card_palette_without_white)
qed

text \<open>
  The claim as first stated lets a device at \<open>(255, 255, 255)\<close> select any of the 13
  entries. White is one of the 13, and it is never selected from a white lamp.
\<close>

theorem white_lamp_never_draws_white:
  "(255, 255, 255) \<in> set colors
   \<and> (\<forall>sec rem r.
        rgb (lamp (trigger_color_change sec rem r
              \<lparr>rgb = (255, 255, 255), brightness = Finite 1, state = True\<rparr>))
          \<noteq> (255, 255, 255))"
proof -
  let ?white = "\<lparr>rgb = (255, 255, 255), brightness = Finite 1, state = True\<rparr>"
  have "rgb (lamp (trigger_color_change sec rem r ?white)) \<noteq> (255, 255, 255)" for sec rem r
  proof -
    have "rgb (lamp (trigger_color_change sec rem r ?white))
        \<in> range (\<lambda>r. rgb (lamp (trigger_color_change sec rem r ?white)))"
      by (rule rangeI)
    then have "rgb (lamp (trigger_color_change sec rem r ?white)) \<in> set colors - {rgb ?white}"
      by (simp only: trigger_color_change_range)
    then show ?thesis by simp
  qed
  moreover have "(255, 255, 255) \<in> set colors" by (simp add: colors_def)
  ultimately show ?thesis by blast
qed

text \<open>
  Claim C6. When the GET answers with a list whose first record has the value \<open>E\<close>, an
  integer string with \<^verbatim>\<open>int(E) = v\<close>, one run of \<^verbatim>\<open>check_color\<close> returns without raising
  and leaves the lamp's colour equal to \<^verbatim>\<open>rgb_decode(v)\<close>, brightness and power state
  untouched; \<^verbatim>\<open>set_color\<close> runs (once, with the decoded colour) exactly when the decoded
  colour differs from the lamp's colour before the call. This holds for every lamp, every
  store, every secrets record and whatever \<^verbatim>\<open>int\<close> does on other strings.
\<close>

theorem check_color_pulls:
  assumes "http_get rem (aio_api sec) (construct_call sec None) = Inr (first_record # others)"
    and "first_record ''value'' = Some E"
    and "py_int E = Inr v"
  shows "raised (check_color py_int sec rem self) = None
    \<and> rgb (lamp (check_color py_int sec rem self)) = rgb_decode v
    \<and> brightness (lamp (check_color py_int sec rem self)) = brightness self
    \<and> state (lamp (check_color py_int sec rem self)) = state self
    \<and> colors_set (out (check_color py_int sec rem self))
        = (if rgb_decode v \<noteq> rgb self then [rgb_decode v] else [])"
  using assms decode_valid [of v]
  by (simp add: check_color_def get_color_def set_color_def Let_def)

text \<open>
  The scenario of the claim: the store holds \<open>''255''\<close>, the encoding of \<open>(0, 0, 255)\<close>,
  and the device is at \<open>(0, 0, 0)\<close>. Of the interpreter only \<^verbatim>\<open>int('255') = 255\<close> is
  used; on any other string the stand-in below raises, and it is never asked.
\<close>

theorem check_color_pulls_witness:
  "rgb_encode (0, 0, 255) = 255
   \<and> rgb (lamp (check_color (\<lambda>s. if s = ''255'' then Inr 255 else Inl ValueError)
          \<lparr>aio_api = ''feed'', aio_key = ''key''\<rparr>
          \<lparr>http_get = (\<lambda>url data. Inr [[''value'' \<mapsto> ''255'']]),
           http_post = (\<lambda>url data. Inl RequestException)\<rparr>
          \<lparr>rgb = (0, 0, 0), brightness = Finite 1, state = True\<rparr>)) = (0, 0, 255)
   \<and> colors_set (out (check_color (\<lambda>s. if s = ''255'' then Inr 255 else Inl ValueError)
          \<lparr>aio_api = ''feed'', aio_key = ''key''\<rparr>
          \<lparr>http_get = (\<lambda>url data. Inr [[''value'' \<mapsto> ''255'']]),
           http_post = (\<lambda>url data. Inl RequestException)\<rparr>
          \<lparr>rgb = (0, 0, 0), brightness = Finite 1, state = True\<rparr>)) = [(0, 0, 255)]"
proof -
  let ?int = "\<lambda>s. if s = ''255'' then Inr 255 else (Inl ValueError :: exn + int)"
  let ?sec = "\<lparr>aio_api = ''feed'', aio_key = ''key''\<rparr>"
  let ?rem = "\<lparr>http_get = (\<lambda>url data. Inr [[''value'' \<mapsto> ''255'']]),
           http_post = (\<lambda>url data. Inl RequestException)\<rparr>"
  let ?lamp = "\<lparr>rgb = (0, 0, 0), brightness = Finite 1, state = True\<rparr>"
  have answer: "http_get ?rem (aio_api ?sec) (construct_call ?sec None)
      = Inr ([''value'' \<mapsto> ''255''] # [])"
    by simp
  have entry: "[''value'' \<mapsto> ''255''] ''value'' = Some ''255''"
    by simp
  have parsed: "?int ''255'' = Inr 255"
    by simp
  have decoded: "rgb_decode 255 = (0, 0, 255)"
    by (simp add: rgb_decode_arith)
  have encoded: "rgb_encode (0, 0, 255) = 255"
    by (simp add: rgb_encode_arith)
  from check_color_pulls
      [where py_int = ?int and sec = ?sec and rem = ?rem
        and first_record = "[''value'' \<mapsto> ''255'']" and others = "[]"
        and E = "''255''" and v = 255 and self = ?lamp,
       OF answer entry parsed]
    decoded encoded
  show ?thesis by simp
qed

end
